theory Spec2Isabelle
  imports Complex_Main
begin

section \<open>JavaScript values used by the decoder\<close>

text \<open>
  The decoder of \<^verbatim>\<open>brainwavestonaturallanguage.js\<close> is embedded function by function.
  A thrown exception is the \<open>Inl\<close> branch of a sum.
\<close>

datatype error =
    MeanOfEmptyArray   \<comment> \<open>mathjs.mean: Error "Cannot calculate the mean of an empty array"\<close>
  | DimensionError     \<comment> \<open>mathjs: operands of different sizes\<close>
  | RangeError         \<comment> \<open>mathjs.dot: vectors empty or of unequal length\<close>
  | TypeError          \<comment> \<open>reduce of an empty array, property of undefined, wrong argument type\<close>
  | LibraryError string  \<comment> \<open>a failure raised inside brain.js or axios\<close>

subsection \<open>Numbers\<close>

text \<open>
  A number is an IEEE 754 binary64 value: a finite value, an infinity or NaN. The finite
  values are carried as reals; every arithmetic operation computes the exact result and
  rounds it to the nearest binary64 value, ties to the even significand, and to an
  infinity beyond the largest finite value. The sign of a zero is not modelled
  (\<^verbatim>\<open>-0 === 0\<close>, and no operation of the decoder divides by a negative zero).
\<close>

datatype jsnum = Finite real | PosInf | NegInf | NaN

definition pow2 :: "int \<Rightarrow> real" where
  "pow2 e = (if 0 \<le> e then 2 ^ nat e else 1 / 2 ^ nat (- e))"

text \<open>
  The exponent of the binade of a magnitude \<open>a\<close>: the greatest \<open>e\<close> from \<open>-1022\<close> to
  \<open>1023\<close> with \<open>2^e \<le> a\<close>, and \<open>-1022\<close> for the subnormal magnitudes. It is searched
  upwards from 0 for a magnitude of at least 1 and downwards from 0 below 1.
\<close>

function exponentUp :: "int \<Rightarrow> real \<Rightarrow> int" where
  "exponentUp e a = (if e < 1023 \<and> pow2 (e + 1) \<le> a then exponentUp (e + 1) a else e)"
  by pat_completeness auto
termination
  by (relation "measure (\<lambda>(e, a). nat (1023 - e))") auto

function exponentDown :: "int \<Rightarrow> real \<Rightarrow> int" where
  "exponentDown e a = (if - 1022 < e \<and> a < pow2 e then exponentDown (e - 1) a else e)"
  by pat_completeness auto
termination
  by (relation "measure (\<lambda>(e, a). nat (e + 1022))") auto

definition binadeExponent :: "real \<Rightarrow> int" where
  "binadeExponent a = (if 1 \<le> a then exponentUp 0 a else exponentDown 0 a)"

definition roundHalfEven :: "real \<Rightarrow> int" where
  "roundHalfEven x =
     (let f = \<lfloor>x\<rfloor>; d = x - of_int f
      in if d < 1 / 2 then f else if 1 / 2 < d then f + 1 else if even f then f else f + 1)"

text \<open>
  Rounding of an exact result: to a multiple of the spacing \<open>2^(e - 52)\<close> of its binade,
  53 significant bits, and to an infinity from \<open>2^1024\<close> on, which only a value of the
  top binade can reach.
\<close>

definition fl :: "real \<Rightarrow> jsnum" where
  "fl x =
     (if x = 0 then Finite 0
      else
        (let e = binadeExponent \<bar>x\<bar>;
             q = pow2 (e - 52);
             r = of_int (roundHalfEven (x / q)) * q
         in if e = 1023 then
              (if pow2 1024 \<le> r then PosInf else if r \<le> - pow2 1024 then NegInf else Finite r)
            else Finite r))"

text \<open>The operators \<^verbatim>\<open>+\<close>, \<^verbatim>\<open>*\<close> and \<^verbatim>\<open>/\<close> on numbers.\<close>

fun js_add :: "jsnum \<Rightarrow> jsnum \<Rightarrow> jsnum" where
  "js_add (Finite a) (Finite b) = fl (a + b)"
| "js_add NaN _ = NaN"
| "js_add _ NaN = NaN"
| "js_add PosInf NegInf = NaN"
| "js_add NegInf PosInf = NaN"
| "js_add PosInf _ = PosInf"
| "js_add _ PosInf = PosInf"
| "js_add NegInf _ = NegInf"
| "js_add _ NegInf = NegInf"

fun js_mul :: "jsnum \<Rightarrow> jsnum \<Rightarrow> jsnum" where
  "js_mul (Finite a) (Finite b) = fl (a * b)"
| "js_mul NaN _ = NaN"
| "js_mul _ NaN = NaN"
| "js_mul PosInf (Finite b) = (if b = 0 then NaN else if 0 < b then PosInf else NegInf)"
| "js_mul NegInf (Finite b) = (if b = 0 then NaN else if 0 < b then NegInf else PosInf)"
| "js_mul (Finite a) PosInf = (if a = 0 then NaN else if 0 < a then PosInf else NegInf)"
| "js_mul (Finite a) NegInf = (if a = 0 then NaN else if 0 < a then NegInf else PosInf)"
| "js_mul PosInf PosInf = PosInf"
| "js_mul NegInf NegInf = PosInf"
| "js_mul PosInf NegInf = NegInf"
| "js_mul NegInf PosInf = NegInf"

fun js_div :: "jsnum \<Rightarrow> jsnum \<Rightarrow> jsnum" where
  "js_div (Finite a) (Finite b) =
     (if b = 0 then (if a = 0 then NaN else if 0 < a then PosInf else NegInf) else fl (a / b))"
| "js_div NaN _ = NaN"
| "js_div _ NaN = NaN"
| "js_div (Finite a) PosInf = Finite 0"
| "js_div (Finite a) NegInf = Finite 0"
| "js_div PosInf (Finite b) = (if b < 0 then NegInf else PosInf)"
| "js_div NegInf (Finite b) = (if b < 0 then PosInf else NegInf)"
| "js_div PosInf PosInf = NaN"
| "js_div PosInf NegInf = NaN"
| "js_div NegInf PosInf = NaN"
| "js_div NegInf NegInf = NaN"

text \<open>\<^verbatim>\<open>Math.sqrt\<close>, correctly rounded.\<close>

fun js_sqrt :: "jsnum \<Rightarrow> jsnum" where
  "js_sqrt (Finite a) = (if a < 0 then NaN else fl (sqrt a))"
| "js_sqrt PosInf = PosInf"
| "js_sqrt _ = NaN"

text \<open>The operator \<^verbatim>\<open>>\<close> on numbers: every comparison with NaN is false.\<close>

fun js_gt :: "jsnum \<Rightarrow> jsnum \<Rightarrow> bool" where
  "js_gt (Finite a) (Finite b) = (a > b)"
| "js_gt NaN _ = False"
| "js_gt _ NaN = False"
| "js_gt PosInf PosInf = False"
| "js_gt PosInf _ = True"
| "js_gt _ PosInf = False"
| "js_gt NegInf _ = False"
| "js_gt _ NegInf = True"

text \<open>
  \<^verbatim>\<open>(p + s) / 2\<close> where each operand is the result of a property read: a missing
  property reads as \<^verbatim>\<open>undefined\<close>, and \<^verbatim>\<open>number + undefined\<close> is NaN.
\<close>

fun averageScore :: "jsnum option \<Rightarrow> jsnum option \<Rightarrow> jsnum" where
  "averageScore (Some p) (Some s) = js_div (js_add p s) (Finite 2)"
| "averageScore _ _ = NaN"

subsection \<open>Arrays\<close>

text \<open>
  \<^verbatim>\<open>Array.prototype.reduce\<close> without an initial value: a TypeError on an empty array,
  otherwise a left fold that starts with the first element. The callback may throw.
\<close>

fun reduceFrom :: "('a \<Rightarrow> 'a \<Rightarrow> error + 'a) \<Rightarrow> 'a \<Rightarrow> 'a list \<Rightarrow> error + 'a" where
  "reduceFrom f a [] = Inr a"
| "reduceFrom f a (b # bs) = (case f a b of Inl e \<Rightarrow> Inl e | Inr a' \<Rightarrow> reduceFrom f a' bs)"

definition arrayReduce :: "('a \<Rightarrow> 'a \<Rightarrow> error + 'a) \<Rightarrow> 'a list \<Rightarrow> error + 'a" where
  "arrayReduce f xs = (case xs of [] \<Rightarrow> Inl TypeError | a # bs \<Rightarrow> reduceFrom f a bs)"

text \<open>\<^verbatim>\<open>Array.prototype.map\<close> with a callback that may throw.\<close>

fun arrayMap :: "('a \<Rightarrow> error + 'b) \<Rightarrow> 'a list \<Rightarrow> error + 'b list" where
  "arrayMap f [] = Inr []"
| "arrayMap f (x # xs) =
     (case f x of Inl e \<Rightarrow> Inl e
      | Inr y \<Rightarrow> (case arrayMap f xs of Inl e \<Rightarrow> Inl e | Inr ys \<Rightarrow> Inr (y # ys)))"

subsection \<open>Objects keyed by words\<close>

text \<open>
  An object is the list of its own properties in the order \<^verbatim>\<open>Object.keys\<close> and
  \<^verbatim>\<open>Object.entries\<close> list them: array-index keys in ascending numeric order first, then
  the other keys in creation order. A property read or the operator \<^verbatim>\<open>in\<close> that finds
  no own property goes on to \<^verbatim>\<open>Object.prototype\<close>, whose members are named below.
\<close>

definition objectPrototypeNames :: "string list" where
  "objectPrototypeNames =
     [''constructor'', ''__defineGetter__'', ''__defineSetter__'', ''hasOwnProperty'',
      ''__lookupGetter__'', ''__lookupSetter__'', ''isPrototypeOf'', ''propertyIsEnumerable'',
      ''toString'', ''valueOf'', ''__proto__'', ''toLocaleString'']"

datatype 'v property = Own 'v | Inherited | Missing

definition getProperty :: "(string \<times> 'v) list \<Rightarrow> string \<Rightarrow> 'v property" where
  "getProperty obj key =
     (case map_of obj key of
        Some v \<Rightarrow> Own v
      | None \<Rightarrow> if key \<in> set objectPrototypeNames then Inherited else Missing)"

text \<open>The operator \<^verbatim>\<open>key in obj\<close>.\<close>

definition hasProperty :: "(string \<times> 'v) list \<Rightarrow> string \<Rightarrow> bool" where
  "hasProperty obj key = (getProperty obj key \<noteq> Missing)"

definition isDigit :: "char \<Rightarrow> bool" where
  "isDigit c = (48 \<le> (of_char c :: nat) \<and> (of_char c :: nat) \<le> 57)"

definition arrayIndexValue :: "string \<Rightarrow> nat" where
  "arrayIndexValue s = foldl (\<lambda>n c. 10 * n + ((of_char c :: nat) - 48)) 0 s"

text \<open>An array index is the canonical decimal numeral of an integer below \<open>2^32 - 1\<close>.\<close>

definition isArrayIndex :: "string \<Rightarrow> bool" where
  "isArrayIndex s =
     (s \<noteq> [] \<and> list_all isDigit s \<and> (if hd s = CHR ''0'' then s = ''0'' else True)
      \<and> arrayIndexValue s < 2 ^ 32 - 1)"

definition ownPropertyOrder :: "(string \<times> 'v) list \<Rightarrow> (string \<times> 'v) list" where
  "ownPropertyOrder es =
     sort_key (\<lambda>e. arrayIndexValue (fst e)) (filter (\<lambda>e. isArrayIndex (fst e)) es)
     @ filter (\<lambda>e. \<not> isArrayIndex (fst e)) es"

fun setProperty :: "(string \<times> 'v) list \<Rightarrow> string \<Rightarrow> 'v \<Rightarrow> (string \<times> 'v) list" where
  "setProperty [] k v = [(k, v)]"
| "setProperty ((k', v') # rest) k v =
     (if k' = k then (k, v) # rest else (k', v') # setProperty rest k v)"

text \<open>\<^verbatim>\<open>Object.fromEntries\<close>: a later entry overwrites an earlier one with the same key.\<close>

definition objectFromEntries :: "(string \<times> 'v) list \<Rightarrow> (string \<times> 'v) list" where
  "objectFromEntries es = ownPropertyOrder (foldl (\<lambda>obj (k, v). setProperty obj k v) [] es)"

subsection \<open>Objects keyed by class indices\<close>

text \<open>
  The classifiers are trained on targets \<^verbatim>\<open>{[yEncoded[i]]: 1}\<close>, so the keys of a score
  object and of the inverse mapping are class indices. Such an object is the list of its
  properties with the index itself as key; its own-key order is ascending
  (indices are taken to be below \<open>2^32 - 1\<close>), and no index names a member of
  \<^verbatim>\<open>Object.prototype\<close>, so a read of an absent index is \<^verbatim>\<open>undefined\<close> (\<open>None\<close>).
\<close>

fun setIndexProperty :: "(nat \<times> 'v) list \<Rightarrow> nat \<Rightarrow> 'v \<Rightarrow> (nat \<times> 'v) list" where
  "setIndexProperty [] k v = [(k, v)]"
| "setIndexProperty ((k', v') # rest) k v =
     (if k = k' then (k, v) # rest
      else if k < k' then (k, v) # (k', v') # rest
      else (k', v') # setIndexProperty rest k v)"

definition fromIndexEntries :: "(nat \<times> 'v) list \<Rightarrow> (nat \<times> 'v) list" where
  "fromIndexEntries es = foldl (\<lambda>obj (k, v). setIndexProperty obj k v) [] es"

subsection \<open>JSON payloads\<close>

datatype jsvalue =
    JUndefined
  | JNull
  | JBool bool
  | JNumber jsnum
  | JString string
  | JArray "jsvalue list"
  | JObject "(string \<times> jsvalue) list"

text \<open>\<^verbatim>\<open>v[0]\<close>: a TypeError on undefined and null, undefined where there is no element.\<close>

fun index0 :: "jsvalue \<Rightarrow> error + jsvalue" where
  "index0 JUndefined = Inl TypeError"
| "index0 JNull = Inl TypeError"
| "index0 (JArray xs) = Inr (case xs of [] \<Rightarrow> JUndefined | x # _ \<Rightarrow> x)"
| "index0 (JString s) = Inr (case s of [] \<Rightarrow> JUndefined | c # _ \<Rightarrow> JString [c])"
| "index0 (JObject kvs) = Inr (case map_of kvs ''0'' of None \<Rightarrow> JUndefined | Some v \<Rightarrow> v)"
| "index0 _ = Inr JUndefined"

text \<open>
  \<^verbatim>\<open>v.name\<close> for the names the decoder reads (\<^verbatim>\<open>meanings\<close>, \<^verbatim>\<open>definitions\<close>,
  \<^verbatim>\<open>definition\<close>), none of which is a member of a built-in prototype.
\<close>

fun member :: "string \<Rightarrow> jsvalue \<Rightarrow> error + jsvalue" where
  "member name JUndefined = Inl TypeError"
| "member name JNull = Inl TypeError"
| "member name (JObject kvs) = Inr (case map_of kvs name of None \<Rightarrow> JUndefined | Some v \<Rightarrow> v)"
| "member name _ = Inr JUndefined"

text \<open>A word as the decoder passes it on: a string, or \<^verbatim>\<open>undefined\<close> (\<open>None\<close>).
  Interpolated into a template string or used as a property key it becomes a string.\<close>

fun toString :: "string option \<Rightarrow> string" where
  "toString None = ''undefined''"
| "toString (Some w) = w"

section \<open>The libraries\<close>

subsection \<open>mathjs\<close>

text \<open>The element-wise product of two arrays of the same length.\<close>

definition mathjs_dotMultiply :: "jsnum list \<Rightarrow> jsnum list \<Rightarrow> error + jsnum list" where
  "mathjs_dotMultiply xs ys =
     (if length xs \<noteq> length ys then Inl DimensionError else Inr (map2 js_mul xs ys))"

text \<open>
  \<^verbatim>\<open>mathjs.mean\<close> adds the values from left to right, starting with the first, and
  divides the sum by their number; it throws on an empty array.
\<close>

definition mathjs_mean :: "jsnum list \<Rightarrow> error + jsnum" where
  "mathjs_mean xs =
     (case xs of
        [] \<Rightarrow> Inl MeanOfEmptyArray
      | x # rest \<Rightarrow> Inr (js_div (foldl js_add x rest) (Finite (real (length xs)))))"

text \<open>
  \<^verbatim>\<open>mathjs.dot\<close> accepts arrays only; the first argument is the result of a property
  read. The products are added from left to right, starting with the first.
\<close>

definition mathjs_dot :: "jsnum list property \<Rightarrow> jsnum list \<Rightarrow> error + jsnum" where
  "mathjs_dot a b =
     (case a of
        Own xs \<Rightarrow>
          (case map2 js_mul xs b of
             p # products \<Rightarrow>
               if length xs = length b then Inr (foldl js_add p products) else Inl RangeError
           | [] \<Rightarrow> Inl RangeError)
      | _ \<Rightarrow> Inl TypeError)"

text \<open>The 2-norm of a vector: the squares are added to 0, then the square root is taken.\<close>

definition mathjs_norm :: "jsnum list \<Rightarrow> jsnum" where
  "mathjs_norm xs = js_sqrt (foldl js_add (Finite 0) (map (\<lambda>x. js_mul x x) xs))"

subsection \<open>brain.js and axios\<close>

text \<open>
  The networks of brain.js are a parameter: a fresh network, training (which mutates the
  network and may throw) and running a trained network on a feature vector, which
  returns the score object. The target of a training example is the key
  \<^verbatim>\<open>yEncoded[i]\<close> as read from the word mapping.
\<close>

record 'n brainjs =
  NeuralNetwork :: 'n
  trainNet :: "'n \<Rightarrow> (jsnum list \<times> nat property) list \<Rightarrow> error option \<times> 'n"
  runNet :: "'n \<Rightarrow> jsnum list \<Rightarrow> error + (nat \<times> jsnum) list"

text \<open>\<^verbatim>\<open>axios.get(url)\<close> is a function from the URL to \<^verbatim>\<open>response.data\<close> or a failure.\<close>

type_synonym axios = "string \<Rightarrow> error + jsvalue"

section \<open>AgnosticBrainDecoder\<close>

record 'n decoder =
  frequencyBands :: "(string \<times> jsnum \<times> jsnum) list"
  samplingRate :: jsnum
  phoneticClassifier :: 'n
  semanticClassifier :: 'n
  wordMapping :: "(string \<times> nat) list"
  wordEmbeddings :: "(string \<times> jsnum list) list"

record predictionResult =
  predictedWord :: "string option"
  wordDefinition :: jsvalue
  universalConcept :: string

text \<open>The constructor; \<open>frequencyBands\<close> holds \<^verbatim>\<open>Object.entries\<close> of the configuration.\<close>

definition newDecoder ::
  "'n brainjs \<Rightarrow> (string \<times> jsnum \<times> jsnum) list \<Rightarrow> jsnum \<Rightarrow> 'n decoder" where
  "newDecoder brain bands rate =
     \<lparr>frequencyBands = bands, samplingRate = rate,
      phoneticClassifier = NeuralNetwork brain, semanticClassifier = NeuralNetwork brain,
      wordMapping = [], wordEmbeddings = []\<rparr>"

text \<open>The loop of \<^verbatim>\<open>extractWeightedBandPower\<close> over the bands, with \<open>features\<close> so far.\<close>

fun bandLoop ::
  "jsnum list \<Rightarrow> (string \<times> jsnum \<times> jsnum) list \<Rightarrow> jsnum list \<Rightarrow> error + jsnum list" where
  "bandLoop data [] features = Inr features"
| "bandLoop data ((bandName, lowFreq, highFreq) # bands) features =
     (case mathjs_dotMultiply data data of
        Inl e \<Rightarrow> Inl e
      | Inr squares \<Rightarrow>
          (case mathjs_mean squares of
             Inl e \<Rightarrow> Inl e
           | Inr bandPower \<Rightarrow>
               (let centerFreq = js_div (js_add lowFreq highFreq) (Finite 2);
                    weightedPower = js_mul bandPower centerFreq
                in bandLoop data bands (features @ [weightedPower]))))"

definition extractWeightedBandPower :: "'n decoder \<Rightarrow> jsnum list \<Rightarrow> error + jsnum list" where
  "extractWeightedBandPower d data = bandLoop data (frequencyBands d) []"

text \<open>The loop of \<^verbatim>\<open>preprocessData\<close> over the channels.\<close>

fun channelLoop :: "'n decoder \<Rightarrow> jsnum list list \<Rightarrow> jsnum list \<Rightarrow> error + jsnum list" where
  "channelLoop d [] processedFeatures = Inr processedFeatures"
| "channelLoop d (channelData # channels) processedFeatures =
     (case extractWeightedBandPower d channelData of
        Inl e \<Rightarrow> Inl e
      | Inr channelFeatures \<Rightarrow> channelLoop d channels (processedFeatures @ channelFeatures))"

definition preprocessData :: "'n decoder \<Rightarrow> jsnum list list \<Rightarrow> error + jsnum list" where
  "preprocessData d rawData = channelLoop d rawData []"

definition extractPhoneticFeatures :: "'n decoder \<Rightarrow> jsnum list list \<Rightarrow> error + jsnum list" where
  "extractPhoneticFeatures d data = preprocessData d (take (length data div 2) data)"

definition extractSemanticFeatures :: "'n decoder \<Rightarrow> jsnum list list \<Rightarrow> error + jsnum list" where
  "extractSemanticFeatures d data = preprocessData d (drop (length data div 2) data)"

subsection \<open>train\<close>

text \<open>\<^verbatim>\<open>[...new Set(y)]\<close>: the distinct words in order of first occurrence.\<close>

definition uniqueWords :: "string list \<Rightarrow> string list" where
  "uniqueWords y = foldl (\<lambda>seen word. if word \<in> set seen then seen else seen @ [word]) [] y"

definition buildWordMapping :: "string list \<Rightarrow> (string \<times> nat) list" where
  "buildWordMapping y =
     objectFromEntries (zip (uniqueWords y) [0 ..< length (uniqueWords y)])"

definition yEncoded :: "(string \<times> nat) list \<Rightarrow> string list \<Rightarrow> nat property list" where
  "yEncoded mapping y = map (\<lambda>word. getProperty mapping word) y"

text \<open>\<^verbatim>\<open>data.map((data, i) => ({input: data, output: {[yEncoded[i]]: 1}}))\<close>.\<close>

definition trainingSet ::
  "jsnum list list \<Rightarrow> nat property list \<Rightarrow> (jsnum list \<times> nat property) list" where
  "trainingSet featureData enc =
     map (\<lambda>(i, input). (input, if i < length enc then enc ! i else Missing))
       (zip [0 ..< length featureData] featureData)"

text \<open>\<open>train\<close> returns what it threw, if anything, and the decoder as it left it.\<close>

definition train ::
  "'n brainjs \<Rightarrow> 'n decoder \<Rightarrow> jsnum list list list \<Rightarrow> string list \<Rightarrow> error option \<times> 'n decoder" where
  "train brain d rawDataSamples y =
     (case arrayMap (extractPhoneticFeatures d) rawDataSamples of
        Inl e \<Rightarrow> (Some e, d)
      | Inr phoneticData \<Rightarrow>
     (case arrayMap (extractSemanticFeatures d) rawDataSamples of
        Inl e \<Rightarrow> (Some e, d)
      | Inr semanticData \<Rightarrow>
     (let d1 = d\<lparr>wordMapping := buildWordMapping y\<rparr>;
          enc = yEncoded (wordMapping d1) y;
          (thrown1, net1) = trainNet brain (phoneticClassifier d1) (trainingSet phoneticData enc);
          d2 = d1\<lparr>phoneticClassifier := net1\<rparr>
      in case thrown1 of
           Some e \<Rightarrow> (Some e, d2)
         | None \<Rightarrow>
            (let (thrown2, net2) =
                   trainNet brain (semanticClassifier d2) (trainingSet semanticData enc)
             in (thrown2, d2\<lparr>semanticClassifier := net2\<rparr>)))))"

subsection \<open>predict\<close>

definition combinedPred :: "(nat \<times> jsnum) list \<Rightarrow> (nat \<times> jsnum) list \<Rightarrow> (nat \<times> jsnum) list" where
  "combinedPred phoneticPred semanticPred =
     fromIndexEntries
       (map (\<lambda>key. (key, averageScore (map_of phoneticPred key) (map_of semanticPred key)))
          (map fst phoneticPred))"

text \<open>A read \<^verbatim>\<open>combinedPred[a]\<close> inside a comparison: undefined compares like NaN.\<close>

definition scoreOf :: "(nat \<times> jsnum) list \<Rightarrow> nat \<Rightarrow> jsnum" where
  "scoreOf scores key = (case map_of scores key of Some v \<Rightarrow> v | None \<Rightarrow> NaN)"

definition predictedIndex :: "(nat \<times> jsnum) list \<Rightarrow> error + nat" where
  "predictedIndex scores =
     arrayReduce (\<lambda>a b. Inr (if js_gt (scoreOf scores a) (scoreOf scores b) then a else b))
       (map fst scores)"

definition inverseMapping :: "(string \<times> nat) list \<Rightarrow> (nat \<times> string) list" where
  "inverseMapping mapping = fromIndexEntries (map (\<lambda>(k, v). (v, k)) mapping)"

definition predict :: "'n brainjs \<Rightarrow> 'n decoder \<Rightarrow> jsnum list list \<Rightarrow> error + string option" where
  "predict brain d rawData =
     (case extractPhoneticFeatures d rawData of
        Inl e \<Rightarrow> Inl e
      | Inr phoneticFeatures \<Rightarrow>
     (case extractSemanticFeatures d rawData of
        Inl e \<Rightarrow> Inl e
      | Inr semanticFeatures \<Rightarrow>
     (case runNet brain (phoneticClassifier d) phoneticFeatures of
        Inl e \<Rightarrow> Inl e
      | Inr phoneticPred \<Rightarrow>
     (case runNet brain (semanticClassifier d) semanticFeatures of
        Inl e \<Rightarrow> Inl e
      | Inr semanticPred \<Rightarrow>
     (case predictedIndex (combinedPred phoneticPred semanticPred) of
        Inl e \<Rightarrow> Inl e
      | Inr idx \<Rightarrow> Inr (map_of (inverseMapping (wordMapping d)) idx))))))"

subsection \<open>getNormalizedDefinition, findUniversalConcept, processAndPredict\<close>

definition definitionUrl :: "string option \<Rightarrow> string" where
  "definitionUrl word = ''https://api.dictionaryapi.dev/api/v2/entries/en/'' @ toString word"

text \<open>\<^verbatim>\<open>response.data[0].meanings[0].definitions[0].definition\<close>.\<close>

definition firstDefinition :: "jsvalue \<Rightarrow> error + jsvalue" where
  "firstDefinition data =
     (case index0 data of Inl e \<Rightarrow> Inl e | Inr entry \<Rightarrow>
     (case member ''meanings'' entry of Inl e \<Rightarrow> Inl e | Inr meanings \<Rightarrow>
     (case index0 meanings of Inl e \<Rightarrow> Inl e | Inr meaning \<Rightarrow>
     (case member ''definitions'' meaning of Inl e \<Rightarrow> Inl e | Inr definitions \<Rightarrow>
     (case index0 definitions of Inl e \<Rightarrow> Inl e | Inr first \<Rightarrow>
        member ''definition'' first)))))"

text \<open>The body of the \<^verbatim>\<open>try\<close> block, then the \<^verbatim>\<open>catch\<close>.\<close>

definition getNormalizedDefinition :: "axios \<Rightarrow> string option \<Rightarrow> jsvalue" where
  "getNormalizedDefinition axiosGet word =
     (case (case axiosGet (definitionUrl word) of
              Inl e \<Rightarrow> Inl e
            | Inr data \<Rightarrow> firstDefinition data) of
        Inl error \<Rightarrow> JString ''Definition not found''
      | Inr v \<Rightarrow> v)"

text \<open>The concept vectors; a decimal literal denotes the nearest binary64 value.\<close>

definition universalConcepts :: "(string \<times> jsnum list) list" where
  "universalConcepts =
     [(''entity'', [fl 0.1, fl 0.2, fl 0.3]), (''action'', [fl 0.4, fl 0.5, fl 0.6]),
      (''state'', [fl 0.7, fl 0.8, fl 0.9])]"

text \<open>\<^verbatim>\<open>dot(a, b) / (norm(a) * norm(b))\<close>.\<close>

definition cosineSimilarity :: "jsnum list property \<Rightarrow> jsnum list \<Rightarrow> error + jsnum" where
  "cosineSimilarity a b =
     (case mathjs_dot a b of
        Inl e \<Rightarrow> Inl e
      | Inr dotProduct \<Rightarrow>
          (case a of
             Own xs \<Rightarrow> Inr (js_div dotProduct (js_mul (mathjs_norm xs) (mathjs_norm b)))
           | _ \<Rightarrow> Inl TypeError))"

definition findUniversalConcept :: "'n decoder \<Rightarrow> string \<Rightarrow> error + string" where
  "findUniversalConcept d word =
     (if \<not> hasProperty (wordEmbeddings d) word then Inr ''Word not in vocabulary''
      else
        (let wordVector = getProperty (wordEmbeddings d) word
         in case arrayReduce
                  (\<lambda>a b. case cosineSimilarity wordVector (snd a) of
                            Inl e \<Rightarrow> Inl e
                          | Inr sa \<Rightarrow>
                              (case cosineSimilarity wordVector (snd b) of
                                 Inl e \<Rightarrow> Inl e
                               | Inr sb \<Rightarrow> Inr (if js_gt sa sb then a else b)))
                  universalConcepts of
              Inl e \<Rightarrow> Inl e
            | Inr closestConcept \<Rightarrow> Inr (fst closestConcept)))"

definition processAndPredict ::
  "'n brainjs \<Rightarrow> axios \<Rightarrow> 'n decoder \<Rightarrow> jsnum list list \<Rightarrow> error + predictionResult" where
  "processAndPredict brain axiosGet d rawData =
     (case predict brain d rawData of
        Inl e \<Rightarrow> Inl e
      | Inr word \<Rightarrow>
          (let definition = getNormalizedDefinition axiosGet word
           in case findUniversalConcept d (toString word) of
                Inl e \<Rightarrow> Inl e
              | Inr concept \<Rightarrow>
                  Inr \<lparr>predictedWord = word, wordDefinition = definition,
                       universalConcept = concept\<rparr>))"

section \<open>Reference definitions and concrete instances\<close>

text \<open>
  The band powers as the specification words them: the mean of the squared samples of a
  channel, weighted by the centre frequency of each band, in band order. The mean of a
  non-empty sequence is its sum, taken from left to right, over its length.
\<close>

fun spec_meanSquare :: "jsnum list \<Rightarrow> jsnum" where
  "spec_meanSquare [] = NaN"
| "spec_meanSquare (x # xs) =
     js_div (foldl js_add (js_mul x x) (map (\<lambda>v. js_mul v v) xs)) (Finite (real (length (x # xs))))"

definition spec_bandPowers :: "(string \<times> jsnum \<times> jsnum) list \<Rightarrow> jsnum list \<Rightarrow> jsnum list" where
  "spec_bandPowers bands samples =
     map (\<lambda>(name, lowHz, highHz).
            js_mul (spec_meanSquare samples) (js_div (js_add lowHz highHz) (Finite 2))) bands"

text \<open>
  A concrete network library and decoder, on which the definitions are evaluated: the
  network is a unit value, training leaves it alone and every run returns the scores
  \<^verbatim>\<open>{0: 0.5, 1: 0.5}\<close>. The decoder has the single band delta = [0.5, 4].
\<close>

definition exampleBrain :: "unit brainjs" where
  "exampleBrain =
     \<lparr>NeuralNetwork = (), trainNet = (\<lambda>net examples. (None, net)),
      runNet = (\<lambda>net input. Inr [(0, Finite 0.5), (1, Finite 0.5)])\<rparr>"

definition deltaDecoder :: "unit decoder" where
  "deltaDecoder = newDecoder exampleBrain [(''delta'', Finite 0.5, Finite 4)] (Finite 1000)"

text \<open>The decoder after training on the labels focus and constructor, and a dictionary
  service that cannot be reached.\<close>

definition trainedDecoder :: "unit decoder" where
  "trainedDecoder = snd (train exampleBrain deltaDecoder [] [''focus'', ''constructor''])"

definition exampleAxios :: axios where
  "exampleAxios url = Inl (LibraryError ''Network Error'')"

section \<open>Rounding\<close>

lemma fl_exact:
  "fl 0 = Finite 0"
  "fl 1 = Finite 1" "fl 2 = Finite 2" "fl 3 = Finite 3" "fl 4 = Finite 4" "fl 8 = Finite 8"
  "fl 9 = Finite 9" "fl 10 = Finite 10" "fl 16 = Finite 16" "fl 18 = Finite 18"
  "fl 20 = Finite 20" "fl (1 / 2) = Finite (1 / 2)" "fl (9 / 2) = Finite (9 / 2)"
  "fl (9 / 4) = Finite (9 / 4)" "fl (81 / 4) = Finite (81 / 4)" "fl (45 / 2) = Finite (45 / 2)"
  by code_simp+

lemma fl_rounds:
  "fl (1 / 10) = Finite (3602879701896397 / 36028797018963968)"
  "fl (1 / 5) = Finite (3602879701896397 / 18014398509481984)"
  by code_simp+

text \<open>From \<open>2^1024\<close> on every value rounds to the infinity.\<close>

lemma exponentUp_top:
  "0 \<le> e \<Longrightarrow> e \<le> 1023 \<Longrightarrow> pow2 1023 \<le> a \<Longrightarrow> exponentUp e a = 1023"
proof (induction e a rule: exponentUp.induct)
  case (1 e a)
  show ?case
  proof (cases "e < 1023")
    case True
    have "nat (e + 1) \<le> 1023" using True by simp
    then have "(2::real) ^ nat (e + 1) \<le> 2 ^ 1023"
      by (intro power_increasing) simp_all
    then have c: "pow2 (e + 1) \<le> a"
      using "1.prems" by (simp add: pow2_def)
    have "exponentUp e a = exponentUp (e + 1) a"
      using True c by (subst exponentUp.simps) simp
    also have "\<dots> = 1023"
      using True c "1.prems" by (intro "1.IH") simp_all
    finally show ?thesis .
  next
    case False
    then show ?thesis using "1.prems" by (subst exponentUp.simps) simp
  qed
qed

lemma roundHalfEven_ge_floor: "\<lfloor>x\<rfloor> \<le> roundHalfEven x"
  by (simp add: roundHalfEven_def Let_def)

lemma fl_overflow:
  assumes "pow2 1024 \<le> x"
  shows "fl x = PosInf"
proof -
  have big: "(2::real) ^ 1024 \<le> x" using assms by (simp add: pow2_def)
  have "(2::real) ^ 1023 \<le> 2 ^ 1024" by (intro power_increasing) simp_all
  then have x1023: "pow2 1023 \<le> x" using big by (simp add: pow2_def)
  have "(1::real) \<le> 2 ^ 1024" by (rule one_le_power) simp
  then have x1: "1 \<le> x" using big by linarith
  then have pos: "0 < x" by linarith
  have e: "binadeExponent \<bar>x\<bar> = 1023"
    using x1 pos exponentUp_top [of 0 x] x1023 by (simp add: binadeExponent_def)
  have q: "pow2 (1023 - 52) = 2 ^ 971" by (simp add: pow2_def)
  have "(2::real) ^ 53 * 2 ^ 971 = 2 ^ 1024" by (simp add: power_add [symmetric])
  then have "(2::real) ^ 53 \<le> x / 2 ^ 971"
    using big by (simp add: pos_le_divide_eq)
  then have "(2::int) ^ 53 \<le> \<lfloor>x / 2 ^ 971\<rfloor>"
    by (simp add: le_floor_iff)
  then have "(2::int) ^ 53 \<le> roundHalfEven (x / 2 ^ 971)"
    using roundHalfEven_ge_floor [of "x / 2 ^ 971"] by linarith
  then have "(2::real) ^ 53 \<le> of_int (roundHalfEven (x / 2 ^ 971))"
    by (metis of_int_le_iff of_int_numeral of_int_power)
  then have "(2::real) ^ 53 * 2 ^ 971 \<le> of_int (roundHalfEven (x / 2 ^ 971)) * 2 ^ 971"
    by (intro mult_right_mono) simp_all
  then have r: "pow2 1024 \<le> of_int (roundHalfEven (x / 2 ^ 971)) * 2 ^ 971"
    using \<open>(2::real) ^ 53 * 2 ^ 971 = 2 ^ 1024\<close> by (simp add: pow2_def)
  show ?thesis
    using pos r unfolding fl_def Let_def e q by simp
qed

lemma square_overflows: "js_mul (Finite (2 ^ 600)) (Finite (2 ^ 600)) = PosInf"
proof -
  have "(2::real) ^ 1024 \<le> 2 ^ 1200" by (intro power_increasing) simp_all
  then have "pow2 1024 \<le> 2 ^ 600 * 2 ^ 600"
    by (simp add: pow2_def power_add [symmetric])
  then show ?thesis by (simp only: js_mul.simps fl_overflow)
qed

section \<open>Band powers and the two pathways\<close>

lemma map2_self: "map2 js_mul xs xs = map (\<lambda>x. js_mul x x) xs"
  by (induction xs) auto

lemma mean_of_squares:
  "data \<noteq> [] \<Longrightarrow>
   (case mathjs_dotMultiply data data of Inl e \<Rightarrow> Inl e | Inr squares \<Rightarrow> mathjs_mean squares)
     = Inr (spec_meanSquare data)"
  by (cases data) (simp_all add: mathjs_dotMultiply_def mathjs_mean_def map2_self)

lemma bandLoop_nonempty:
  "data \<noteq> [] \<Longrightarrow> bandLoop data bands features = Inr (features @ spec_bandPowers bands data)"
proof (induction bands arbitrary: features)
  case Nil
  then show ?case by (simp add: spec_bandPowers_def)
next
  case (Cons band bands)
  obtain bandName lowFreq highFreq where b: "band = (bandName, lowFreq, highFreq)"
    by (cases band) auto
  obtain x xs where d: "data = x # xs" using Cons.prems by (cases data) auto
  have sq: "mathjs_dotMultiply data data = Inr (map (\<lambda>v. js_mul v v) data)"
    by (simp add: mathjs_dotMultiply_def map2_self)
  have mn: "mathjs_mean (map (\<lambda>v. js_mul v v) data) = Inr (spec_meanSquare data)"
    by (simp add: d mathjs_mean_def)
  show ?case
    using Cons.IH [OF Cons.prems] by (simp add: b sq mn spec_bandPowers_def)
qed

lemma bandLoop_empty_data:
  "bands \<noteq> [] \<Longrightarrow> bandLoop [] bands features = Inl MeanOfEmptyArray"
  by (cases bands) (auto simp: mathjs_dotMultiply_def mathjs_mean_def)

lemma extract_nonempty:
  "data \<noteq> [] \<Longrightarrow> extractWeightedBandPower d data = Inr (spec_bandPowers (frequencyBands d) data)"
  by (simp add: extractWeightedBandPower_def bandLoop_nonempty)

lemma channelLoop_nonempty:
  "\<forall>ch \<in> set channels. ch \<noteq> [] \<Longrightarrow>
   channelLoop d channels acc = Inr (acc @ concat (map (spec_bandPowers (frequencyBands d)) channels))"
  by (induction channels arbitrary: acc) (auto simp: extract_nonempty)

lemma preprocessData_nonempty:
  "\<forall>ch \<in> set channels. ch \<noteq> [] \<Longrightarrow>
   preprocessData d channels = Inr (concat (map (spec_bandPowers (frequencyBands d)) channels))"
  by (simp add: preprocessData_def channelLoop_nonempty)

lemma length_concat_bandPowers:
  "length (concat (map (spec_bandPowers bands) channels)) = length channels * length bands"
  by (induction channels) (auto simp: spec_bandPowers_def)

text \<open>The arithmetic is that of the machine: a band power is rounded, overflows to an
  infinity and can be NaN.\<close>

lemma band_power_rounded:
  "extractWeightedBandPower deltaDecoder [fl 0.1, fl 0.2]
     = Inr [Finite (4053239664633447 / 72057594037927936)]"
  by code_simp

lemma band_power_overflow:
  "extractWeightedBandPower deltaDecoder [Finite (2 ^ 600), Finite (2 ^ 600)] = Inr [PosInf]"
proof -
  define x where "x = Finite (2 ^ 600)"
  have sq: "js_mul x x = PosInf" unfolding x_def by (rule square_overflows)
  have "extractWeightedBandPower deltaDecoder [x, x] = Inr [PosInf]"
    by (simp add: extractWeightedBandPower_def deltaDecoder_def newDecoder_def
        mathjs_dotMultiply_def mathjs_mean_def sq fl_exact)
  then show ?thesis unfolding x_def .
qed

lemma band_power_nan:
  "extractWeightedBandPower (newDecoder exampleBrain [(''band'', Finite (- 1), Finite 1)] (Finite 1000))
     [Finite (2 ^ 600)] = Inr [NaN]"
proof -
  define x where "x = Finite (2 ^ 600)"
  have sq: "js_mul x x = PosInf" unfolding x_def by (rule square_overflows)
  have "extractWeightedBandPower
          (newDecoder exampleBrain [(''band'', Finite (- 1), Finite 1)] (Finite 1000)) [x] = Inr [NaN]"
    by (simp add: extractWeightedBandPower_def newDecoder_def
        mathjs_dotMultiply_def mathjs_mean_def sq fl_exact)
  then show ?thesis unfolding x_def .
qed

text \<open>
  Claim C1, as the code has it. \<^verbatim>\<open>extractPhoneticFeatures\<close> and
  \<^verbatim>\<open>extractSemanticFeatures\<close> slice the sequence of channels, not the samples of a
  channel: the phonetic features are the band powers of the first \<open>C div 2\<close> channels,
  each taken over all of its samples, the semantic features those of the remaining
  channels. For \<open>C\<close> non-empty channels and \<open>B\<close> bands the two vectors have
  \<open>(C div 2) * B\<close> and \<open>(C - C div 2) * B\<close> entries.
\<close>

theorem C1_channel_split:
  assumes "\<forall>ch \<in> set data. ch \<noteq> []"
  shows "extractPhoneticFeatures d data =
           Inr (concat (map (spec_bandPowers (frequencyBands d)) (take (length data div 2) data)))
       \<and> extractSemanticFeatures d data =
           Inr (concat (map (spec_bandPowers (frequencyBands d)) (drop (length data div 2) data)))
       \<and> (\<exists>pf sf. extractPhoneticFeatures d data = Inr pf \<and> extractSemanticFeatures d data = Inr sf
            \<and> length pf = (length data div 2) * length (frequencyBands d)
            \<and> length sf = (length data - length data div 2) * length (frequencyBands d))"
proof -
  have t: "\<forall>ch \<in> set (take (length data div 2) data). ch \<noteq> []"
    using assms by (meson in_set_takeD)
  have dr: "\<forall>ch \<in> set (drop (length data div 2) data). ch \<noteq> []"
    using assms by (meson in_set_dropD)
  have p: "extractPhoneticFeatures d data =
           Inr (concat (map (spec_bandPowers (frequencyBands d)) (take (length data div 2) data)))"
    unfolding extractPhoneticFeatures_def by (rule preprocessData_nonempty [OF t])
  have s: "extractSemanticFeatures d data =
           Inr (concat (map (spec_bandPowers (frequencyBands d)) (drop (length data div 2) data)))"
    unfolding extractSemanticFeatures_def by (rule preprocessData_nonempty [OF dr])
  have m: "min (length data) (length data div 2) = length data div 2"
    by simp
  show ?thesis
    using p s by (simp add: length_concat_bandPowers m)
qed

text \<open>Three channels of two samples, one band: one phonetic feature, two semantic ones.\<close>

theorem C1_channel_split_witness:
  "list_all (\<lambda>ch. ch \<noteq> []) [[Finite 1, Finite 1], [Finite 3, Finite 3], [Finite 2, Finite 2]]
   \<and> extractPhoneticFeatures deltaDecoder [[Finite 1, Finite 1], [Finite 3, Finite 3], [Finite 2, Finite 2]]
        = Inr [Finite 2.25]
   \<and> extractSemanticFeatures deltaDecoder [[Finite 1, Finite 1], [Finite 3, Finite 3], [Finite 2, Finite 2]]
        = Inr [Finite 20.25, Finite 9]"
proof -
  have p: "extractPhoneticFeatures deltaDecoder
             [[Finite 1, Finite 1], [Finite 3, Finite 3], [Finite 2, Finite 2]] = Inr [Finite 2.25]"
    by (simp add: extractPhoneticFeatures_def preprocessData_def extractWeightedBandPower_def
        deltaDecoder_def newDecoder_def mathjs_dotMultiply_def mathjs_mean_def fl_exact)
  have s: "extractSemanticFeatures deltaDecoder
             [[Finite 1, Finite 1], [Finite 3, Finite 3], [Finite 2, Finite 2]]
             = Inr [Finite 20.25, Finite 9]"
    by (simp add: extractSemanticFeatures_def preprocessData_def extractWeightedBandPower_def
        deltaDecoder_def newDecoder_def mathjs_dotMultiply_def mathjs_mean_def fl_exact)
  show ?thesis
    using C1_channel_split [of "[[Finite 1, Finite 1], [Finite 3, Finite 3], [Finite 2, Finite 2]]"
        deltaDecoder] p s
    by simp
qed

text \<open>
  Claim C1 as stated fails: on two channels of two samples and one band it promises two
  feature vectors of \<open>2 * 1\<close> entries, the phonetic one from the samples \<open>[1]\<close> and \<open>[3]\<close>.
  The code returns one entry per pathway: the band power of the whole first channel and
  that of the whole second channel.
\<close>

theorem C1_counterexample:
  "extractPhoneticFeatures deltaDecoder [[Finite 1, Finite 1], [Finite 3, Finite 3]] = Inr [Finite 2.25]
   \<and> extractSemanticFeatures deltaDecoder [[Finite 1, Finite 1], [Finite 3, Finite 3]] = Inr [Finite 20.25]
   \<and> length [Finite 2.25] \<noteq> length [[Finite 1, Finite 1], [Finite 3, Finite 3]]
                                 * length (frequencyBands deltaDecoder)"
  by (simp add: extractPhoneticFeatures_def extractSemanticFeatures_def preprocessData_def
      extractWeightedBandPower_def deltaDecoder_def newDecoder_def mathjs_dotMultiply_def
      mathjs_mean_def fl_exact)

text \<open>
  Claim C2. On a non-empty channel \<^verbatim>\<open>extractWeightedBandPower\<close> returns one value per
  band, in band order: the mean of the squared samples multiplied by
  \<open>(lowHz + highHz) / 2\<close>, every operation being that of the machine, so that the value
  is rounded, infinite or NaN where the arithmetic makes it so. With the single band
  delta = [0.5, 4] the signal [1, 1, 1, 1] gives [2.25].
\<close>

theorem C2_band_power:
  "(data \<noteq> [] \<longrightarrow>
      extractWeightedBandPower d data =
        Inr (map (\<lambda>(name, lowHz, highHz).
                    js_mul (spec_meanSquare data) (js_div (js_add lowHz highHz) (Finite 2)))
               (frequencyBands d)))
   \<and> extractWeightedBandPower (newDecoder brain [(''delta'', Finite 0.5, Finite 4)] rate)
        [Finite 1, Finite 1, Finite 1, Finite 1] = Inr [Finite 2.25]"
proof -
  have v: "spec_bandPowers [(''delta'', Finite 0.5, Finite 4)] [Finite 1, Finite 1, Finite 1, Finite 1]
             = [Finite 2.25]"
    by (simp add: spec_bandPowers_def fl_exact)
  have "extractWeightedBandPower (newDecoder brain [(''delta'', Finite 0.5, Finite 4)] rate)
          [Finite 1, Finite 1, Finite 1, Finite 1] = Inr [Finite 2.25]"
    using v by (simp add: extract_nonempty newDecoder_def)
  then show ?thesis
    by (simp add: extract_nonempty spec_bandPowers_def)
qed

theorem C2_band_power_witness:
  "[Finite 2, Finite 4] \<noteq> [] \<and> extractWeightedBandPower deltaDecoder [Finite 2, Finite 4] = Inr [Finite 22.5]"
proof -
  have v: "spec_bandPowers (frequencyBands deltaDecoder) [Finite 2, Finite 4] = [Finite 22.5]"
    by (simp add: spec_bandPowers_def deltaDecoder_def newDecoder_def fl_exact)
  show ?thesis
    using C2_band_power [of "[Finite 2, Finite 4]" deltaDecoder exampleBrain "Finite 1000"] v
    by (simp add: spec_bandPowers_def)
qed

text \<open>
  Claim C6, as the code has it. On an empty channel the extraction fails as soon as it
  processes a band: \<^verbatim>\<open>mathjs.mean\<close> raises its error for the empty array, and no value,
  NaN or other, is returned. With no band configured the loop body never runs and the
  result is the empty feature list.
\<close>

theorem C6_empty_channel:
  "extractWeightedBandPower d [] =
     (if frequencyBands d = [] then Inr [] else Inl MeanOfEmptyArray)"
  by (simp add: extractWeightedBandPower_def bandLoop_empty_data)

text \<open>
  Claim C6 as stated (a failure for every band configuration) fails for the empty
  configuration.
\<close>

theorem C6_counterexample:
  "extractWeightedBandPower (newDecoder exampleBrain [] (Finite 1000)) [] = Inr []"
  by (simp add: extractWeightedBandPower_def newDecoder_def)

section \<open>Fusion of the two score objects\<close>

lemma map_of_setIndexProperty:
  "map_of (setIndexProperty obj k v) = (map_of obj)(k \<mapsto> v)"
  by (induction obj k v rule: setIndexProperty.induct) (auto simp: fun_upd_twist)

lemma map_of_foldl_setIndexProperty:
  "map_of (foldl (\<lambda>obj (k, v). setIndexProperty obj k v) acc es) = map_of acc ++ map_of (rev es)"
  by (induction es arbitrary: acc) (auto simp: map_of_setIndexProperty map_add_upd_left split: prod.splits)

lemma map_of_fromIndexEntries: "map_of (fromIndexEntries es) = map_of (rev es)"
  by (simp add: fromIndexEntries_def map_of_foldl_setIndexProperty)

lemma keys_fromIndexEntries: "fst ` set (fromIndexEntries es) = fst ` set es"
proof -
  have "dom (map_of (fromIndexEntries es)) = dom (map_of (rev es))"
    by (simp add: map_of_fromIndexEntries)
  then show ?thesis by (simp add: dom_map_of_conv_image_fst)
qed

lemma map_of_rev_graph:
  "map_of (rev (map (\<lambda>k. (k, g k)) ks)) k = (if k \<in> set ks then Some (g k) else None)"
  by (induction ks) (auto simp: map_add_def map_of_eq_None_iff image_iff split: option.splits)

lemma map_of_combinedPred:
  "map_of (combinedPred p s) k =
     (if k \<in> fst ` set p then Some (averageScore (map_of p k) (map_of s k)) else None)"
proof -
  have "map_of (rev (map (\<lambda>key. (key, averageScore (map_of p key) (map_of s key))) (map fst p))) k =
          (if k \<in> set (map fst p) then Some (averageScore (map_of p k) (map_of s k)) else None)"
    by (rule map_of_rev_graph)
  then show ?thesis
    by (simp only: combinedPred_def map_of_fromIndexEntries set_map)
qed

lemma keys_combinedPred: "fst ` set (combinedPred p s) = fst ` set p"
  by (simp add: combinedPred_def keys_fromIndexEntries image_image)

lemma combinedPred_cong:
  "\<forall>k \<in> fst ` set p. map_of s' k = map_of s k \<Longrightarrow> combinedPred p s' = combinedPred p s"
  by (simp add: combinedPred_def cong: map_cong)

text \<open>How \<^verbatim>\<open>predict\<close> uses the two score objects once the classifiers have run.\<close>

lemma predict_combined:
  assumes "extractPhoneticFeatures d rawData = Inr pf" "extractSemanticFeatures d rawData = Inr sf"
    and "runNet brain (phoneticClassifier d) pf = Inr p"
    and "runNet brain (semanticClassifier d) sf = Inr s"
  shows "predict brain d rawData =
           map_sum id (map_of (inverseMapping (wordMapping d))) (predictedIndex (combinedPred p s))"
  using assms by (simp add: predict_def split: sum.splits)

text \<open>
  Claim C10. The fused object has exactly the keys of the phonetic score object. A key
  that only the semantic object has is absent from the fused object, and the fused
  object and the predicted index do not depend on it: two semantic objects that agree on
  the phonetic keys fuse to the same object. A phonetic key that the semantic object
  lacks is kept, with the score NaN.
\<close>

theorem C10_fused_keys:
  "fst ` set (combinedPred p s) = fst ` set p
   \<and> (\<forall>k. k \<notin> fst ` set p \<longrightarrow> map_of (combinedPred p s) k = None)
   \<and> (\<forall>s'. (\<forall>k \<in> fst ` set p. map_of s' k = map_of s k) \<longrightarrow>
          combinedPred p s' = combinedPred p s
          \<and> predictedIndex (combinedPred p s') = predictedIndex (combinedPred p s))
   \<and> (\<forall>k \<in> fst ` set p. k \<notin> fst ` set s \<longrightarrow> map_of (combinedPred p s) k = Some NaN)"
proof (intro conjI allI impI ballI)
  show "fst ` set (combinedPred p s) = fst ` set p" by (rule keys_combinedPred)
next
  fix k assume "k \<notin> fst ` set p"
  then show "map_of (combinedPred p s) k = None" by (simp add: map_of_combinedPred)
next
  fix s' assume a: "\<forall>k \<in> fst ` set p. map_of s' k = map_of s k"
  show "combinedPred p s' = combinedPred p s" by (rule combinedPred_cong [OF a])
  then show "predictedIndex (combinedPred p s') = predictedIndex (combinedPred p s)" by simp
next
  fix k assume "k \<in> fst ` set p" "k \<notin> fst ` set s"
  then have "map_of s k = None" by (simp add: map_of_eq_None_iff)
  with \<open>k \<in> fst ` set p\<close> show "map_of (combinedPred p s) k = Some NaN"
    by (cases "map_of p k") (simp_all add: map_of_combinedPred)
qed

text \<open>The semantic-only key 2 is dropped, the phonetic-only key 1 is kept with NaN.\<close>

theorem C10_fused_keys_witness:
  "combinedPred [(0, Finite 0.5), (1, Finite 0.5)] [(0, Finite 0.5), (2, Finite 0.75)]
     = [(0, Finite 0.5), (1, NaN)]
   \<and> combinedPred [(0, Finite 0.5), (1, Finite 0.5)] [(0, Finite 0.5)]
     = combinedPred [(0, Finite 0.5), (1, Finite 0.5)] [(0, Finite 0.5), (2, Finite 0.75)]
   \<and> map_of (combinedPred [(0, Finite 0.5), (1, Finite 0.5)] [(0, Finite 0.5), (2, Finite 0.75)]) 1
     = Some NaN
   \<and> map_of (combinedPred [(0, Finite 0.5), (1, Finite 0.5)] [(0, Finite 0.5), (2, Finite 0.75)]) 2
     = None"
  using C10_fused_keys [of "[(0, Finite 0.5), (1, Finite 0.5)]" "[(0, Finite 0.5), (2, Finite 0.75)]"]
  by (simp add: combinedPred_def fromIndexEntries_def fl_exact)

text \<open>The mean is taken in the arithmetic of the machine: the sum is rounded, and
  \<^verbatim>\<open>(0.1 + 0.2) / 2\<close> is 0.15000000000000002.\<close>

lemma fused_score_rounded:
  "averageScore (Some (fl 0.1)) (Some (fl 0.2)) = Finite (1351079888211149 / 9007199254740992)"
  by code_simp

text \<open>
  Claim C3, as the code has it. A key that both score objects have is fused to the mean
  of the two scores as the code computes it: the sum of the two numbers, rounded, divided
  by 2. The keys of the fused object are those of the phonetic object, which include the
  common keys: a key of the semantic object alone is absent, a key of the phonetic object
  alone is present.
\<close>

theorem C3_fused_scores:
  "(\<forall>k a b. map_of p k = Some a \<and> map_of s k = Some b \<longrightarrow>
       map_of (combinedPred p s) k = Some (js_div (js_add a b) (Finite 2)))
   \<and> fst ` set (combinedPred p s) = fst ` set p
   \<and> (\<forall>k \<in> fst ` set s - fst ` set p. k \<notin> fst ` set (combinedPred p s))
   \<and> (\<forall>k \<in> fst ` set p - fst ` set s. k \<in> fst ` set (combinedPred p s))"
proof (intro conjI allI impI ballI)
  fix k a b assume "map_of p k = Some a \<and> map_of s k = Some b"
  moreover from this have "k \<in> fst ` set p" by (metis domI dom_map_of_conv_image_fst)
  ultimately show "map_of (combinedPred p s) k = Some (js_div (js_add a b) (Finite 2))"
    by (simp add: map_of_combinedPred)
qed (simp_all add: keys_combinedPred)

theorem C3_fused_scores_witness:
  "map_of (combinedPred [(0, Finite 0.25), (1, Finite 0.5)] [(0, Finite 0.75)]) 0 = Some (Finite 0.5)
   \<and> fst ` set (combinedPred [(0, Finite 0.25), (1, Finite 0.5)] [(0, Finite 0.75)]) = {0, 1}"
  using C3_fused_scores [of "[(0, Finite 0.25), (1, Finite 0.5)]" "[(0, Finite 0.75)]"]
  by (simp add: combinedPred_def fromIndexEntries_def fl_exact)

text \<open>
  Claim C3 as stated fails: with phonetic scores for the keys 0 and 1 and a semantic score
  for the key 0 only, the fused keys are not the intersection of the two key sets.
\<close>

theorem C3_counterexample:
  "fst ` set (combinedPred [(0, Finite 0.5), (1, Finite 0.5)] [(0, Finite 0.5)])
     \<noteq> fst ` set [(0 :: nat, Finite 0.5), (1, Finite 0.5)] \<inter> fst ` set [(0 :: nat, Finite 0.5)]"
  by (simp add: combinedPred_def fromIndexEntries_def fl_exact)


section \<open>The predicted index\<close>

lemma reduceFrom_snoc:
  "reduceFrom f a (bs @ [b]) = (case reduceFrom f a bs of Inl e \<Rightarrow> Inl e | Inr k \<Rightarrow> f k b)"
  by (induction bs arbitrary: a) (auto split: sum.splits)

lemma js_gt_trans: "js_gt x y \<Longrightarrow> js_gt y z \<Longrightarrow> js_gt x z"
  by (cases x; cases y; cases z) auto

lemma js_gt_total: "x \<noteq> NaN \<Longrightarrow> y \<noteq> NaN \<Longrightarrow> z \<noteq> NaN \<Longrightarrow>
   \<not> js_gt x y \<Longrightarrow> \<not> js_gt y z \<Longrightarrow> \<not> js_gt x z"
  by (cases x; cases y; cases z) auto

text \<open>
  The reduction over the keys \<open>a # bs\<close> with the scores \<open>g\<close> returns the first key whose
  score is greater than the score of every later key: every key before it meets a later
  key whose score it does not exceed. Without NaN among the scores no key before it has
  a greater score.
\<close>

lemma reduce_first_dominant:
  "\<exists>pre k post. a # bs = pre @ k # post
     \<and> reduceFrom (\<lambda>a b. Inr (if js_gt (g a) (g b) then a else b)) a bs = Inr k
     \<and> (\<forall>j \<in> set post. js_gt (g k) (g j))
     \<and> (\<forall>p1 j p2. pre = p1 @ j # p2 \<longrightarrow> (\<exists>i \<in> set (p2 @ k # post). \<not> js_gt (g j) (g i)))
     \<and> ((\<forall>j \<in> set (a # bs). g j \<noteq> NaN) \<longrightarrow> (\<forall>j \<in> set pre. \<not> js_gt (g j) (g k)))"
proof (induction bs rule: rev_induct)
  case Nil
  show ?case by (rule exI [of _ "[]"], rule exI [of _ a], rule exI [of _ "[]"]) simp
next
  case (snoc b bs)
  let ?f = "\<lambda>a b. Inr (if js_gt (g a) (g b) then a else b) :: error + 'a"
  from snoc.IH obtain pre k post where
    dec: "a # bs = pre @ k # post" and red: "reduceFrom ?f a bs = Inr k"
    and lt: "\<forall>j \<in> set post. js_gt (g k) (g j)"
    and ex: "\<forall>p1 j p2. pre = p1 @ j # p2 \<longrightarrow> (\<exists>i \<in> set (p2 @ k # post). \<not> js_gt (g j) (g i))"
    and le: "(\<forall>j \<in> set (a # bs). g j \<noteq> NaN) \<longrightarrow> (\<forall>j \<in> set pre. \<not> js_gt (g j) (g k))"
    by blast
  have step: "reduceFrom ?f a (bs @ [b]) = Inr (if js_gt (g k) (g b) then k else b)"
    by (simp add: reduceFrom_snoc red)
  show ?case
  proof (cases "js_gt (g k) (g b)")
    case True
    have d: "a # (bs @ [b]) = pre @ k # (post @ [b])" using dec by simp
    have r: "reduceFrom ?f a (bs @ [b]) = Inr k" using step True by simp
    have l: "\<forall>j \<in> set (post @ [b]). js_gt (g k) (g j)" using lt True by simp
    have e: "\<forall>p1 j p2. pre = p1 @ j # p2 \<longrightarrow>
               (\<exists>i \<in> set (p2 @ k # (post @ [b])). \<not> js_gt (g j) (g i))"
    proof (intro allI impI)
      fix p1 j p2 assume "pre = p1 @ j # p2"
      with ex obtain i where "i \<in> set (p2 @ k # post)" "\<not> js_gt (g j) (g i)" by blast
      then show "\<exists>i \<in> set (p2 @ k # (post @ [b])). \<not> js_gt (g j) (g i)" by auto
    qed
    have n: "(\<forall>j \<in> set (a # (bs @ [b])). g j \<noteq> NaN) \<longrightarrow> (\<forall>j \<in> set pre. \<not> js_gt (g j) (g k))"
      using le by auto
    show ?thesis
      by (rule exI [of _ pre], rule exI [of _ k], rule exI [of _ "post @ [b]"])
         (intro conjI d r l e n)
  next
    case False
    have d: "a # (bs @ [b]) = (pre @ k # post) @ b # []" using dec by simp
    have r: "reduceFrom ?f a (bs @ [b]) = Inr b" using step False by simp
    have l: "\<forall>j \<in> set ([] :: 'a list). js_gt (g b) (g j)" by simp
    have e: "\<forall>p1 j p2. pre @ k # post = p1 @ j # p2 \<longrightarrow>
               (\<exists>i \<in> set (p2 @ b # []). \<not> js_gt (g j) (g i))"
    proof (intro allI impI)
      fix p1 j p2 assume s: "pre @ k # post = p1 @ j # p2"
      have "j \<in> set (pre @ k # post)" by (simp add: s)
      then consider "j \<in> set post" | "j = k" | "j \<in> set pre" "j \<notin> set post" "j \<noteq> k" by auto
      then show "\<exists>i \<in> set (p2 @ b # []). \<not> js_gt (g j) (g i)"
      proof cases
        case 1
        then have "js_gt (g k) (g j)" using lt by simp
        then have "\<not> js_gt (g j) (g b)" using False js_gt_trans by blast
        then show ?thesis by simp
      next
        case 2
        then show ?thesis using False by simp
      next
        case 3
        from s 3 obtain q where pq: "pre = p1 @ j # q" and p2: "p2 = q @ k # post"
          by (auto simp: append_eq_append_conv2 append_eq_Cons_conv Cons_eq_append_conv)
        with ex obtain i where "i \<in> set (q @ k # post)" "\<not> js_gt (g j) (g i)" by blast
        then show ?thesis using p2 by auto
      qed
    qed
    have n: "(\<forall>j \<in> set (a # (bs @ [b])). g j \<noteq> NaN) \<longrightarrow>
               (\<forall>j \<in> set (pre @ k # post). \<not> js_gt (g j) (g b))"
    proof (intro impI ballI)
      fix j assume nn: "\<forall>j \<in> set (a # (bs @ [b])). g j \<noteq> NaN" and j: "j \<in> set (pre @ k # post)"
      have all: "\<forall>j \<in> set (pre @ k # post). g j \<noteq> NaN" using nn dec by (metis append_Cons in_set_conv_decomp list.set_intros(2) set_ConsD set_append UnCI)
      have nb: "g b \<noteq> NaN" using nn by simp
      have nk: "g k \<noteq> NaN" using all by simp
      have nj: "g j \<noteq> NaN" using all j by blast
      from j consider "j \<in> set pre" | "j = k" | "j \<in> set post" by auto
      then show "\<not> js_gt (g j) (g b)"
      proof cases
        case 1
        have "\<forall>j \<in> set (a # bs). g j \<noteq> NaN" using all dec by simp
        then have "\<not> js_gt (g j) (g k)" using le 1 by blast
        then show ?thesis using False js_gt_total [OF nj nk nb] by blast
      next
        case 2
        then show ?thesis using False by simp
      next
        case 3
        then have "js_gt (g k) (g j)" using lt by simp
        then show ?thesis using False js_gt_trans by blast
      qed
    qed
    show ?thesis
      by (rule exI [of _ "pre @ k # post"], rule exI [of _ b], rule exI [of _ "[]"])
         (intro conjI d r l e n)
  qed
qed

lemma js_gt_irrefl: "\<not> js_gt x x"
  by (cases x) auto

lemma js_gt_asym: "js_gt x y \<Longrightarrow> \<not> js_gt y x"
  by (cases x; cases y) auto

lemma scoreOf_entry:
  "distinct (map fst distribution) \<Longrightarrow> (k, v) \<in> set distribution \<Longrightarrow> scoreOf distribution k = v"
  by (simp add: scoreOf_def)

lemma key_entry: "k \<in> set (map fst entries) \<Longrightarrow> \<exists>v. (k, v) \<in> set entries"
  by auto

text \<open>
  Claim C5, as the code has it. On an object without keys the reduction raises a
  TypeError (the EmptyDistribution condition). On a non-empty score distribution it
  returns the first key, in iteration order, whose score is greater than the score of
  every later key: each earlier key meets a later key whose score it does not exceed.
  When no score is NaN, no key has a greater score than the returned one, and the keys
  after it have smaller scores: it is the last-seen of the keys with the greatest score.
\<close>

theorem C5_first_dominant:
  "predictedIndex [] = Inl TypeError
   \<and> (distribution \<noteq> [] \<and> distinct (map fst distribution) \<longrightarrow>
        (\<exists>pre k v post. distribution = pre @ (k, v) # post
           \<and> predictedIndex distribution = Inr k
           \<and> (\<forall>(k', v') \<in> set post. js_gt v v')
           \<and> (\<forall>p1 k' v' p2. pre = p1 @ (k', v') # p2 \<longrightarrow>
                  (\<exists>(k'', v'') \<in> set (p2 @ (k, v) # post). \<not> js_gt v' v''))
           \<and> ((\<forall>(k', v') \<in> set distribution. v' \<noteq> NaN) \<longrightarrow>
                  (\<forall>(k', v') \<in> set distribution. \<not> js_gt v' v))))"
proof (intro conjI impI)
  show "predictedIndex [] = Inl TypeError"
    by (simp add: predictedIndex_def arrayReduce_def)
next
  assume a: "distribution \<noteq> [] \<and> distinct (map fst distribution)"
  then obtain e es where des: "distribution = e # es" by (cases distribution) auto
  let ?g = "scoreOf distribution"
  have val: "\<And>k v. (k, v) \<in> set distribution \<Longrightarrow> ?g k = v"
    using a by (simp add: scoreOf_entry)
  from reduce_first_dominant [of "fst e" "map fst es" ?g] obtain pre k post where
    dec: "fst e # map fst es = pre @ k # post"
    and red: "reduceFrom (\<lambda>a b. Inr (if js_gt (?g a) (?g b) then a else b)) (fst e) (map fst es) = Inr k"
    and lt: "\<forall>j \<in> set post. js_gt (?g k) (?g j)"
    and ex: "\<forall>p1 j p2. pre = p1 @ j # p2 \<longrightarrow> (\<exists>i \<in> set (p2 @ k # post). \<not> js_gt (?g j) (?g i))"
    and le: "(\<forall>j \<in> set (fst e # map fst es). ?g j \<noteq> NaN) \<longrightarrow> (\<forall>j \<in> set pre. \<not> js_gt (?g j) (?g k))"
    by blast
  have keys: "map fst distribution = pre @ k # post" using dec des by simp
  then obtain pre' x post' where
    d3: "distribution = pre' @ x # post'" and p1: "map fst pre' = pre" and p2: "fst x = k"
    and p3: "map fst post' = post"
    by (auto simp: map_eq_append_conv map_eq_Cons_conv)
  obtain v where x: "x = (k, v)" using p2 by (cases x) auto
  have d4: "distribution = pre' @ (k, v) # post'" using d3 x by simp
  have gk: "?g k = v" using val [of k v] d4 by simp
  have pi: "predictedIndex distribution = Inr k"
    using red by (simp add: predictedIndex_def arrayReduce_def des)
  have c1: "\<forall>(k', v') \<in> set post'. js_gt v v'"
  proof (clarify)
    fix k' v' assume m: "(k', v') \<in> set post'"
    then have "?g k' = v'" using val d4 by simp
    moreover have "k' \<in> set post" using m p3 by force
    ultimately show "js_gt v v'" using lt gk by auto
  qed
  have c2: "\<forall>p1 k' v' p2. pre' = p1 @ (k', v') # p2 \<longrightarrow>
                  (\<exists>(k'', v'') \<in> set (p2 @ (k, v) # post'). \<not> js_gt v' v'')"
  proof (intro allI impI)
    fix q1 k' v' q2 assume s: "pre' = q1 @ (k', v') # q2"
    have gk': "?g k' = v'" using val d4 s by simp
    have "pre = map fst q1 @ k' # map fst q2" using p1 s by auto
    with ex obtain i where i: "i \<in> set (map fst q2 @ k # post)" and n: "\<not> js_gt (?g k') (?g i)"
      by blast
    have "i \<in> set (map fst (q2 @ (k, v) # post'))" using i p3 by simp
    then obtain vi where vi: "(i, vi) \<in> set (q2 @ (k, v) # post')" using key_entry by fastforce
    then have "(i, vi) \<in> set distribution" using d4 s by auto
    then have "?g i = vi" by (rule val)
    then have "\<not> js_gt v' vi" using n gk' by simp
    then show "\<exists>(k'', v'') \<in> set (q2 @ (k, v) # post'). \<not> js_gt v' v''" using vi by blast
  qed
  have c3: "(\<forall>(k', v') \<in> set distribution. v' \<noteq> NaN) \<longrightarrow>
                  (\<forall>(k', v') \<in> set distribution. \<not> js_gt v' v)"
  proof (intro impI, clarify)
    fix k' v' assume nn: "\<forall>(k', v') \<in> set distribution. v' \<noteq> NaN" and m: "(k', v') \<in> set distribution"
      and gt: "js_gt v' v"
    have "\<forall>j \<in> set (fst e # map fst es). ?g j \<noteq> NaN"
    proof
      fix j assume "j \<in> set (fst e # map fst es)"
      then have "j \<in> set (map fst distribution)" by (simp add: des)
      then obtain vj where vj: "(j, vj) \<in> set distribution" using key_entry by fastforce
      then have "?g j = vj" by (rule val)
      then show "?g j \<noteq> NaN" using nn vj by auto
    qed
    then have pre_le: "\<forall>j \<in> set pre. \<not> js_gt (?g j) (?g k)" using le by blast
    have gk': "?g k' = v'" using m by (rule val)
    from m d4 consider "(k', v') \<in> set pre'" | "(k', v') = (k, v)" | "(k', v') \<in> set post'" by auto
    then show False
    proof cases
      case 1
      then have "k' \<in> set pre" using p1 by force
      then show False using pre_le gk' gk gt by auto
    next
      case 2
      then show False using gt js_gt_irrefl by simp
    next
      case 3
      then have "js_gt v v'" using c1 by auto
      then show False using gt js_gt_asym by blast
    qed
  qed
  show "\<exists>pre k v post. distribution = pre @ (k, v) # post
           \<and> predictedIndex distribution = Inr k
           \<and> (\<forall>(k', v') \<in> set post. js_gt v v')
           \<and> (\<forall>p1 k' v' p2. pre = p1 @ (k', v') # p2 \<longrightarrow>
                  (\<exists>(k'', v'') \<in> set (p2 @ (k, v) # post). \<not> js_gt v' v''))
           \<and> ((\<forall>(k', v') \<in> set distribution. v' \<noteq> NaN) \<longrightarrow>
                  (\<forall>(k', v') \<in> set distribution. \<not> js_gt v' v))"
    by (rule exI [of _ pre'], rule exI [of _ k], rule exI [of _ v], rule exI [of _ post'])
       (intro conjI d4 pi c1 c2 c3)
qed

text \<open>The keys 1 and 2 tie for the greatest score; the later one is returned.\<close>

theorem C5_first_dominant_witness:
  "predictedIndex [(0, Finite 0.25), (1, Finite 0.75), (2, Finite 0.75), (3, Finite 0.125)] = Inr 2"
  using C5_first_dominant [of "[(0, Finite 0.25), (1, Finite 0.75), (2, Finite 0.75), (3, Finite 0.125)]"]
  by (simp add: predictedIndex_def arrayReduce_def scoreOf_def)

text \<open>A NaN score is neither greater nor smaller than another: the key after it wins.\<close>

lemma predictedIndex_after_nan:
  "predictedIndex [(0, Finite 0.75), (1, NaN), (2, Finite 0.125)] = Inr 2"
  by (simp add: predictedIndex_def arrayReduce_def scoreOf_def)

text \<open>
  Claim C5 as stated fails on a tie: of the keys 0 and 1 with equal scores the reduction
  returns 1, not the first-seen key 0.
\<close>

theorem C5_counterexample:
  "predictedIndex [(0, Finite 0.5), (1, Finite 0.5)] = Inr 1
   \<and> predictedIndex [(0, Finite 0.5), (1, Finite 0.5)] \<noteq> Inr 0"
  by (simp add: predictedIndex_def arrayReduce_def scoreOf_def)

section \<open>The word mapping\<close>

lemma uniqueWords_snoc:
  "uniqueWords (ys @ [x]) =
     (if x \<in> set (uniqueWords ys) then uniqueWords ys else uniqueWords ys @ [x])"
  by (simp add: uniqueWords_def)

lemma set_uniqueWords: "set (uniqueWords y) = set y"
  by (induction y rule: rev_induct) (auto simp: uniqueWords_snoc, simp add: uniqueWords_def)

lemma distinct_uniqueWords: "distinct (uniqueWords y)"
  by (induction y rule: rev_induct) (auto simp: uniqueWords_snoc, simp add: uniqueWords_def)

lemma takeWhile_fresh_snoc: "x \<notin> set xs \<Longrightarrow> takeWhile (\<lambda>y. y \<noteq> x) (xs @ [x]) = xs"
  by (induction xs) auto

lemma first_occurrence_nth:
  "w \<in> set xs \<Longrightarrow>
   length (takeWhile (\<lambda>x. x \<noteq> w) xs) < length xs \<and> xs ! length (takeWhile (\<lambda>x. x \<noteq> w) xs) = w"
  by (induction xs) auto

lemma uniqueWords_before:
  "w \<in> set y \<Longrightarrow>
   set (takeWhile (\<lambda>x. x \<noteq> w) (uniqueWords y)) = set (takeWhile (\<lambda>x. x \<noteq> w) y)"
proof (induction y rule: rev_induct)
  case Nil
  then show ?case by simp
next
  case (snoc x ys)
  show ?case
  proof (cases "w \<in> set ys")
    case True
    then have "w \<in> set (uniqueWords ys)" by (simp add: set_uniqueWords)
    then have "takeWhile (\<lambda>x. x \<noteq> w) (uniqueWords (ys @ [x])) = takeWhile (\<lambda>x. x \<noteq> w) (uniqueWords ys)"
      by (simp add: uniqueWords_snoc)
    moreover have "takeWhile (\<lambda>x. x \<noteq> w) (ys @ [x]) = takeWhile (\<lambda>x. x \<noteq> w) ys"
      using True by simp
    ultimately show ?thesis using snoc.IH [OF True] by simp
  next
    case False
    then have wx: "w = x" using snoc.prems by simp
    have nu: "x \<notin> set (uniqueWords ys)" using False wx by (simp add: set_uniqueWords)
    have "takeWhile (\<lambda>x. x \<noteq> w) (uniqueWords (ys @ [x])) = uniqueWords ys"
      using nu wx by (simp add: uniqueWords_snoc takeWhile_fresh_snoc)
    moreover have "takeWhile (\<lambda>x. x \<noteq> w) (ys @ [x]) = ys"
      using False wx by (simp add: takeWhile_fresh_snoc)
    ultimately show ?thesis by (simp add: set_uniqueWords)
  qed
qed

lemma setProperty_fresh: "k \<notin> fst ` set obj \<Longrightarrow> setProperty obj k v = obj @ [(k, v)]"
  by (induction obj) auto

lemma foldl_setProperty_distinct:
  "distinct (map fst es) \<Longrightarrow> fst ` set acc \<inter> fst ` set es = {} \<Longrightarrow>
   foldl (\<lambda>obj (k, v). setProperty obj k v) acc es = acc @ es"
proof (induction es arbitrary: acc)
  case Nil
  then show ?case by simp
next
  case (Cons e es)
  obtain k v where e: "e = (k, v)" by (cases e)
  have fresh: "k \<notin> fst ` set acc" using Cons.prems(2) e by auto
  have d: "distinct (map fst es)" using Cons.prems(1) by simp
  have disj: "fst ` set (acc @ [(k, v)]) \<inter> fst ` set es = {}"
    using Cons.prems e by auto
  show ?case
    using Cons.IH [OF d disj] by (simp add: e setProperty_fresh [OF fresh])
qed

lemma set_ownPropertyOrder: "set (ownPropertyOrder es) = set es"
  by (auto simp: ownPropertyOrder_def)

lemma distinct_keys_ownPropertyOrder:
  assumes "distinct (map fst es)"
  shows "distinct (map fst (ownPropertyOrder es))"
proof -
  have d: "distinct es" and inj: "inj_on fst (set es)"
    using assms by (simp_all add: distinct_map)
  have "distinct (ownPropertyOrder es)"
    using d by (auto simp: ownPropertyOrder_def)
  then show ?thesis
    using inj by (simp add: distinct_map set_ownPropertyOrder)
qed

lemma map_of_ownPropertyOrder:
  "distinct (map fst es) \<Longrightarrow> map_of (ownPropertyOrder es) = map_of es"
  by (simp add: map_of_inject_set distinct_keys_ownPropertyOrder set_ownPropertyOrder)

lemma objectFromEntries_distinct:
  "distinct (map fst es) \<Longrightarrow> objectFromEntries es = ownPropertyOrder es"
  using foldl_setProperty_distinct [of es "[]"] by (simp add: objectFromEntries_def)

lemma wordMapping_entries:
  "set (buildWordMapping y) = set (zip (uniqueWords y) [0 ..< length (uniqueWords y)])"
  by (simp add: buildWordMapping_def objectFromEntries_distinct distinct_uniqueWords set_ownPropertyOrder)

lemma wordMapping_distinct_words: "distinct (map fst (buildWordMapping y))"
  by (simp add: buildWordMapping_def objectFromEntries_distinct distinct_uniqueWords
      distinct_keys_ownPropertyOrder)

lemma wordMapping_words: "fst ` set (buildWordMapping y) = set y"
proof -
  have "fst ` set (zip (uniqueWords y) [0 ..< length (uniqueWords y)]) = set (uniqueWords y)"
    by (metis length_upt diff_zero map_fst_zip set_map)
  then show ?thesis by (simp add: wordMapping_entries set_uniqueWords)
qed

lemma wordMapping_indices: "snd ` set (buildWordMapping y) = {0 ..< card (set y)}"
proof -
  have "snd ` set (zip (uniqueWords y) [0 ..< length (uniqueWords y)]) = set [0 ..< length (uniqueWords y)]"
    by (metis length_upt diff_zero map_snd_zip set_map)
  moreover have "length (uniqueWords y) = card (set y)"
    by (metis distinct_card distinct_uniqueWords set_uniqueWords)
  ultimately show ?thesis by (simp add: wordMapping_entries)
qed

lemma wordMapping_distinct_indices: "distinct (map snd (buildWordMapping y))"
proof -
  have "card (snd ` set (buildWordMapping y)) = card (set y)"
    by (simp add: wordMapping_indices)
  moreover have "length (buildWordMapping y) = card (set y)"
    by (metis wordMapping_distinct_words wordMapping_words distinct_card length_map set_map)
  ultimately show ?thesis
    by (metis card_distinct length_map set_map)
qed

lemma wordMapping_lookup:
  assumes "w \<in> set y"
  shows "map_of (buildWordMapping y) w = Some (card (set (takeWhile (\<lambda>x. x \<noteq> w) y)))"
proof -
  let ?U = "uniqueWords y"
  let ?i = "length (takeWhile (\<lambda>x. x \<noteq> w) ?U)"
  have wU: "w \<in> set ?U" using assms by (simp add: set_uniqueWords)
  have i: "?i < length ?U" and "?U ! ?i = w"
    using first_occurrence_nth [OF wU] by simp_all
  have "map_of (zip ?U [0 ..< length ?U]) (?U ! ?i) = Some ([0 ..< length ?U] ! ?i)"
    using i by (intro map_of_zip_nth) (simp_all add: distinct_uniqueWords)
  then have "map_of (zip ?U [0 ..< length ?U]) w = Some ?i"
    using \<open>?U ! ?i = w\<close> i by simp
  moreover have "?i = card (set (takeWhile (\<lambda>x. x \<noteq> w) ?U))"
    by (simp add: distinct_card distinct_uniqueWords)
  moreover have "map_of (buildWordMapping y) = map_of (zip ?U [0 ..< length ?U])"
    by (simp add: buildWordMapping_def objectFromEntries_distinct distinct_uniqueWords
        map_of_ownPropertyOrder)
  ultimately show ?thesis using uniqueWords_before [OF assms] by simp
qed

lemma inverseMapping_lookup:
  assumes "distinct (map snd m)" "(w, i) \<in> set m"
  shows "map_of (inverseMapping m) i = Some w"
proof -
  let ?es = "map (\<lambda>(k, v). (v, k)) m"
  have fs: "map fst ?es = map snd m" by (induction m) auto
  have "map fst (rev ?es) = rev (map fst ?es)" by (simp only: rev_map)
  then have d: "distinct (map fst (rev ?es))" using assms(1) by (simp only: fs distinct_rev)
  have "(i, w) \<in> set (rev ?es)" using assms(2) by force
  then have "map_of (rev ?es) i = Some w" using d by (rule map_of_is_SomeI [rotated])
  then show ?thesis by (simp add: inverseMapping_def map_of_fromIndexEntries)
qed

lemma train_wordMapping:
  "fst (train brain d samples y) = None \<Longrightarrow>
   wordMapping (snd (train brain d samples y)) = buildWordMapping y"
  by (auto simp: train_def Let_def split: sum.splits prod.splits option.splits)
lemma example_uniqueWords: "uniqueWords [''a'', ''b'', ''a''] = [''a'', ''b'']"
  by (simp add: uniqueWords_def)

lemma example_wordMapping: "buildWordMapping [''a'', ''b'', ''a''] = [(''a'', 0), (''b'', 1)]"
  by (simp add: buildWordMapping_def example_uniqueWords objectFromEntries_def ownPropertyOrder_def
      isArrayIndex_def isDigit_def upt_rec)

text \<open>
  Claim C4. The mapping \<^verbatim>\<open>train\<close> builds from the labels \<open>y\<close> has one entry per
  distinct word and its indices are exactly \<open>0, ..., distinctCount - 1\<close>, each used once.
  The index of a word is the number of distinct words before its first occurrence;
  reading that index back through the inverse mapping of \<^verbatim>\<open>predict\<close> returns the word.
  A call of \<^verbatim>\<open>train\<close> that returns leaves this mapping in the decoder. The labels
  a, b, a give {a: 0, b: 1}, and 0 and 1 decode to a and b.
\<close>

theorem C4_label_mapping:
  "distinct (map fst (buildWordMapping y)) \<and> fst ` set (buildWordMapping y) = set y
   \<and> distinct (map snd (buildWordMapping y))
   \<and> snd ` set (buildWordMapping y) = {0 ..< card (set y)}
   \<and> (\<forall>w \<in> set y.
          getProperty (buildWordMapping y) w = Own (card (set (takeWhile (\<lambda>x. x \<noteq> w) y)))
          \<and> map_of (inverseMapping (buildWordMapping y)) (card (set (takeWhile (\<lambda>x. x \<noteq> w) y)))
              = Some w)
   \<and> (fst (train brain d samples y) = None \<longrightarrow>
          wordMapping (snd (train brain d samples y)) = buildWordMapping y)
   \<and> buildWordMapping [''a'', ''b'', ''a''] = [(''a'', 0), (''b'', 1)]
   \<and> map_of (inverseMapping (buildWordMapping [''a'', ''b'', ''a''])) 0 = Some ''a''
   \<and> map_of (inverseMapping (buildWordMapping [''a'', ''b'', ''a''])) 1 = Some ''b''"
proof -
  have enc: "\<forall>w \<in> set y.
          getProperty (buildWordMapping y) w = Own (card (set (takeWhile (\<lambda>x. x \<noteq> w) y)))
          \<and> map_of (inverseMapping (buildWordMapping y)) (card (set (takeWhile (\<lambda>x. x \<noteq> w) y)))
              = Some w"
  proof
    fix w assume w: "w \<in> set y"
    let ?i = "card (set (takeWhile (\<lambda>x. x \<noteq> w) y))"
    have l: "map_of (buildWordMapping y) w = Some ?i" by (rule wordMapping_lookup [OF w])
    then have "(w, ?i) \<in> set (buildWordMapping y)" by (rule map_of_SomeD)
    then have "map_of (inverseMapping (buildWordMapping y)) ?i = Some w"
      by (rule inverseMapping_lookup [OF wordMapping_distinct_indices])
    then show "getProperty (buildWordMapping y) w = Own ?i
          \<and> map_of (inverseMapping (buildWordMapping y)) ?i = Some w"
      using l by (simp add: getProperty_def)
  qed
  have ex: "map_of (inverseMapping (buildWordMapping [''a'', ''b'', ''a''])) 0 = Some ''a''"
    "map_of (inverseMapping (buildWordMapping [''a'', ''b'', ''a''])) 1 = Some ''b''"
    by (simp_all add: example_wordMapping inverseMapping_def fromIndexEntries_def)
  have tr: "fst (train brain d samples y) = None \<longrightarrow>
          wordMapping (snd (train brain d samples y)) = buildWordMapping y"
    by (simp add: train_wordMapping)
  show ?thesis
    by (intro conjI wordMapping_distinct_words wordMapping_words wordMapping_distinct_indices
        wordMapping_indices enc tr ex example_wordMapping)
qed

theorem C4_label_mapping_witness:
  "getProperty (buildWordMapping [''x'', ''y'', ''x'']) ''y'' = Own 1
   \<and> map_of (inverseMapping (buildWordMapping [''x'', ''y'', ''x''])) 1 = Some ''y''
   \<and> wordMapping (snd (train exampleBrain deltaDecoder [] [''x'', ''y'', ''x'']))
        = buildWordMapping [''x'', ''y'', ''x'']"
proof -
  have f: "fst (train exampleBrain deltaDecoder [] [''x'', ''y'', ''x'']) = None"
    by (simp add: train_def exampleBrain_def)
  have c: "card (set (takeWhile (\<lambda>x. x \<noteq> ''y'') [''x'', ''y'', ''x''])) = 1"
    by simp
  have m: "''y'' \<in> set [''x'', ''y'', ''x'']"
    by simp
  show ?thesis
    using C4_label_mapping [of "[''x'', ''y'', ''x'']" exampleBrain deltaDecoder "[]"] f c m
    by metis
qed

section \<open>Concept grounding\<close>

lemma concept_inherited:
  "map_of (wordEmbeddings d) word = None \<Longrightarrow> word \<in> set objectPrototypeNames \<Longrightarrow>
   findUniversalConcept d word = Inl TypeError"
  by (simp add: findUniversalConcept_def hasProperty_def getProperty_def arrayReduce_def
      universalConcepts_def cosineSimilarity_def mathjs_dot_def)

lemma train_wordEmbeddings:
  "wordEmbeddings (snd (train brain d samples y)) = wordEmbeddings d"
  by (auto simp: train_def Let_def split: sum.splits prod.splits option.splits)

lemma processAndPredict_concept:
  "wordEmbeddings d = [] \<Longrightarrow> processAndPredict brain axiosGet d rawData = Inr r \<Longrightarrow>
   universalConcept r = ''Word not in vocabulary''"
  by (auto simp: processAndPredict_def Let_def findUniversalConcept_def hasProperty_def
      getProperty_def arrayReduce_def universalConcepts_def cosineSimilarity_def mathjs_dot_def
      split: sum.splits if_splits)

text \<open>
  Claim C7, as the code has it. For a word that is no property of the embedding table,
  neither an entry of its own nor a member it inherits from \<^verbatim>\<open>Object.prototype\<close>,
  \<^verbatim>\<open>findUniversalConcept\<close> returns the string "Word not in vocabulary", with a capital
  W, and raises nothing.
\<close>

theorem C7_not_in_vocabulary:
  "map_of (wordEmbeddings d) word = None \<Longrightarrow> word \<notin> set objectPrototypeNames \<Longrightarrow>
   findUniversalConcept d word = Inr ''Word not in vocabulary''"
  by (simp add: findUniversalConcept_def hasProperty_def getProperty_def)

theorem C7_not_in_vocabulary_witness:
  "findUniversalConcept deltaDecoder ''focus'' = Inr ''Word not in vocabulary''"
  using C7_not_in_vocabulary [of deltaDecoder "''focus''"]
  by (simp add: deltaDecoder_def newDecoder_def objectPrototypeNames_def)

text \<open>
  Claim C7 as stated fails: the string returned for a word without an entry is not
  "word not in vocabulary".
\<close>

theorem C7_counterexample:
  "findUniversalConcept deltaDecoder ''focus'' \<noteq> Inr ''word not in vocabulary''"
  by (simp add: findUniversalConcept_def hasProperty_def getProperty_def deltaDecoder_def
      newDecoder_def objectPrototypeNames_def)

subsection \<open>A word that names a member of Object.prototype\<close>

lemma trained_wordMapping:
  "buildWordMapping [''focus'', ''constructor''] = [(''focus'', 0), (''constructor'', 1)]"
  by (simp add: buildWordMapping_def uniqueWords_def objectFromEntries_def ownPropertyOrder_def
      isArrayIndex_def isDigit_def upt_rec)

lemma trainedDecoder_eq:
  "trainedDecoder = deltaDecoder\<lparr>wordMapping := [(''focus'', 0), (''constructor'', 1)]\<rparr>"
  unfolding trainedDecoder_def
  by (simp add: train_def exampleBrain_def trained_wordMapping)

lemma trained_features:
  "extractPhoneticFeatures trainedDecoder [[Finite 1, Finite 1], [Finite 3, Finite 3]]
     = Inr [Finite 2.25]"
  "extractSemanticFeatures trainedDecoder [[Finite 1, Finite 1], [Finite 3, Finite 3]]
     = Inr [Finite 20.25]"
  by (simp_all add: trainedDecoder_eq extractPhoneticFeatures_def extractSemanticFeatures_def
      preprocessData_def extractWeightedBandPower_def deltaDecoder_def newDecoder_def
      mathjs_dotMultiply_def mathjs_mean_def fl_exact)

lemma example_scores: "runNet exampleBrain net input = Inr [(0, Finite 0.5), (1, Finite 0.5)]"
  by (simp add: exampleBrain_def)

lemma example_index:
  "predictedIndex (combinedPred [(0, Finite 0.5), (1, Finite 0.5)] [(0, Finite 0.5), (1, Finite 0.5)])
     = Inr 1"
  by (simp add: predictedIndex_def arrayReduce_def scoreOf_def combinedPred_def fromIndexEntries_def
      fl_exact)

lemma trained_decode:
  "map_of (inverseMapping (wordMapping trainedDecoder)) 1 = Some ''constructor''"
  by (simp add: trainedDecoder_eq inverseMapping_def fromIndexEntries_def)

lemma trained_predict:
  "predict exampleBrain trainedDecoder [[Finite 1, Finite 1], [Finite 3, Finite 3]] = Inr (Some ''constructor'')"
  by (simp only: predict_def trained_features example_scores example_index trained_decode sum.case)

lemma trained_concept: "findUniversalConcept trainedDecoder ''constructor'' = Inl TypeError"
  by (rule concept_inherited)
     (simp_all add: trainedDecoder_eq deltaDecoder_def newDecoder_def objectPrototypeNames_def)

text \<open>
  Claim C9 at the word constructor. The embedding table of a new decoder is empty and
  stays empty through \<^verbatim>\<open>train\<close>, yet \<^verbatim>\<open>findUniversalConcept\<close> does not return the
  sentinel for this word: the operator \<^verbatim>\<open>in\<close> finds \<^verbatim>\<open>constructor\<close> on
  \<^verbatim>\<open>Object.prototype\<close>, the value read is no vector and \<^verbatim>\<open>mathjs.dot\<close> raises a
  TypeError. A decoder trained on the labels focus and constructor predicts the word and
  \<^verbatim>\<open>processAndPredict\<close> fails with that error.
\<close>

theorem C9_inherited_word:
  "wordEmbeddings (newDecoder exampleBrain [(''delta'', Finite 0.5, Finite 4)] (Finite 1000)) = []
   \<and> findUniversalConcept (newDecoder exampleBrain [(''delta'', Finite 0.5, Finite 4)] (Finite 1000)) ''constructor''
        = Inl TypeError
   \<and> wordEmbeddings trainedDecoder = []
   \<and> predict exampleBrain trainedDecoder [[Finite 1, Finite 1], [Finite 3, Finite 3]] = Inr (Some ''constructor'')
   \<and> processAndPredict exampleBrain exampleAxios trainedDecoder [[Finite 1, Finite 1], [Finite 3, Finite 3]] = Inl TypeError"
proof -
  have "findUniversalConcept (newDecoder exampleBrain [(''delta'', Finite 0.5, Finite 4)] (Finite 1000)) ''constructor''
        = Inl TypeError"
    by (rule concept_inherited) (simp_all add: newDecoder_def objectPrototypeNames_def)
  moreover have "wordEmbeddings trainedDecoder = []"
    by (simp add: trainedDecoder_def train_wordEmbeddings deltaDecoder_def newDecoder_def)
  moreover have "processAndPredict exampleBrain exampleAxios trainedDecoder [[Finite 1, Finite 1], [Finite 3, Finite 3]]
        = Inl TypeError"
    by (simp add: processAndPredict_def trained_predict trained_concept)
  ultimately show ?thesis
    using trained_predict by (simp add: newDecoder_def)
qed

section \<open>The definition lookup\<close>

lemma lookup_failure_caught:
  "axiosGet (definitionUrl word) = Inl e \<Longrightarrow>
   getNormalizedDefinition axiosGet word = JString ''Definition not found''"
  by (simp add: getNormalizedDefinition_def)

lemma lookup_error_caught:
  "axiosGet (definitionUrl word) = Inr data \<Longrightarrow> firstDefinition data = Inl e \<Longrightarrow>
   getNormalizedDefinition axiosGet word = JString ''Definition not found''"
  by (simp add: getNormalizedDefinition_def)

lemma lookup_empty_result:
  "axiosGet (definitionUrl word) = Inr (JArray []) \<Longrightarrow>
   getNormalizedDefinition axiosGet word = JString ''Definition not found''"
  by (simp add: getNormalizedDefinition_def firstDefinition_def)

lemma processAndPredict_lookup_independent:
  "map_sum id (\<lambda>r. (predictedWord r, universalConcept r)) (processAndPredict brain axiosGet d rawData)
   = map_sum id (\<lambda>r. (predictedWord r, universalConcept r)) (processAndPredict brain axiosGet' d rawData)"
  by (simp add: processAndPredict_def Let_def split: sum.splits)

text \<open>
  Claim C8 at a payload whose first definition entry has no \<^verbatim>\<open>definition\<close> field.
  Every failure that raises (the request itself, an empty result, a missing
  \<^verbatim>\<open>meanings\<close> or \<^verbatim>\<open>definitions\<close> field) is caught and gives "Definition not found",
  and the other two fields of the result never depend on the lookup. Reading the missing
  last field raises nothing: the lookup returns \<^verbatim>\<open>undefined\<close>, not the placeholder.
\<close>

theorem C8_missing_definition_field:
  "getNormalizedDefinition
     (\<lambda>url. Inr (JArray [JObject [(''word'', JString ''focus''),
        (''meanings'', JArray [JObject [(''definitions'', JArray [JObject []])]])]]))
     (Some ''focus'') = JUndefined"
  by (simp add: getNormalizedDefinition_def firstDefinition_def)

end
